theory Spec2Isabelle
  imports Complex_Main "HOL-Library.Word"
begin

section \<open>Python values and exceptions\<close>

text \<open>
  The marshalling code of pywayland runs on Python objects and on C data reached through
  cffi. Exceptions are values of \<open>exn\<close>; a function that can raise returns \<open>exn + 'a\<close>
  with \<open>Inl\<close> for the exception. A \<open>RuntimeError\<close> keeps which message it was raised with.
\<close>

datatype runtime_msg =
    Got_null_object string
      \<comment> \<open>message.py 121-124: "Got null object parsing arguments for '<name>' message ..."\<close>
  | Unable_to_get_object nat
      \<comment> \<open>message.py 131: "Unable to get object for <ptr>, was it garbage collected?"\<close>
  | String_on_NULL
      \<comment> \<open>raised by cffi: \<open>ffi.string\<close> applied to a NULL \<open>char *\<close>\<close>
  | Invalid_argument_type string
      \<comment> \<open>scanner/argument.py 85: "Invalid argument type: <type>"\<close>

datatype exn =
    StopIteration          \<comment> \<open>\<open>next(arg_iter)\<close> on an exhausted iterator\<close>
  | TypeError              \<comment> \<open>cffi conversion of a value of the wrong Python type\<close>
  | OverflowError          \<comment> \<open>cffi conversion of an integer outside the C type\<close>
  | AttributeError         \<comment> \<open>attribute absent from the object\<close>
  | IndexError             \<comment> \<open>index outside a list or a cffi array\<close>
  | ValueError             \<comment> \<open>proxy.py 47; cffi asked for an array of \<open>void\<close>\<close>
  | Exception             \<comment> \<open>the bare \<open>raise Exception\<close> of message.py 114, 183, 192\<close>
  | RuntimeError runtime_msg
  | NotImplementedError    \<comment> \<open>message.py 135\<close>
  | UnicodeDecodeError     \<comment> \<open>\<open>bytes.decode()\<close> on bytes that are not UTF-8\<close>
  | NULL_dereference       \<comment> \<open>a field read through a NULL struct pointer: the process dies\<close>
  | Reinterpreted          \<comment> \<open>a union member read from a cell holding bytes of another kind\<close>
  | StaleObject            \<comment> \<open>the spec's name for a call on a destroyed proxy\<close>
  | DuplicateIdentity      \<comment> \<open>the spec's name for a second registration of an identity\<close>

text \<open>
  Addresses of C objects are natural numbers; \<open>NULL\<close> is 0. A \<open>Proxy\<close> (client/proxy.py)
  has the attributes \<open>_ptr\<close>, \<open>_display\<close>, \<open>user_data\<close> and, once a dispatcher was
  attached, \<open>_handle\<close>. \<open>_ptr\<close> is Python's \<open>None\<close> or a cffi pointer, which may be NULL.
\<close>

definition NULL :: nat where
  "NULL = 0"

datatype proxy = Proxy
  (ptr: "nat option")
  (display: "proxy option")
  (user_data: "nat option")
  (handle: "nat option")

text \<open>
  A Python \<open>str\<close> is kept as its UTF-8 bytes (an Isabelle \<open>string\<close>), so \<open>arg.encode()\<close> is the
  identity on the representation. A finite \<open>float\<close> is kept as the rational it denotes.
\<close>

datatype pyobj =
    PNone
  | PInt int
  | PFloat rat
  | PStr string
  | PBytes "8 word list"
  | PProxy proxy

section \<open>The protocol model\<close>

datatype ArgumentType =
    ArgumentType_Int
  | ArgumentType_Uint
  | ArgumentType_Fixed
  | ArgumentType_String
  | ArgumentType_Object
  | ArgumentType_NewId
  | ArgumentType_Array
  | ArgumentType_FileDescriptor

text \<open>
  The classes \<open>Interface\<close> and \<open>Argument\<close> of \<open>protocol_core\<close> are not under src/; their
  attributes are taken from the places message.py, proxy.py and the generated
  wl_destructor.py read them: \<open>interface._ptr\<close>, \<open>interface.proxy_class\<close>,
  \<open>proxy_class.registry\<close>, \<open>proxy_class.dispatcher\<close>, \<open>name\<close>, \<open>version\<close>;
  \<open>argument.argument_type\<close>, \<open>argument.nullable\<close>, \<open>argument.interface\<close>.
\<close>

record proxy_class =
  dispatcher :: "nat option"
  registry :: "nat \<rightharpoonup> proxy"

record interface =
  iface_name :: string
  iface_version :: nat
  iface_ptr :: nat
  proxy_class :: proxy_class

record Argument =
  argument_type :: ArgumentType
  nullable :: bool
  interface :: "interface option"

definition Argument_init :: "ArgumentType \<Rightarrow> Argument" where
  \<comment> \<open>\<open>Argument(ArgumentType.X)\<close> as message.py 56-57 calls it: no interface, not nullable\<close>
  "Argument_init t = \<lparr>argument_type = t, nullable = False, interface = None\<rparr>"

text \<open>
  \<open>Message.__init__\<close> (message.py 45-50) sets \<open>py_func\<close>, \<open>name\<close>, \<open>arguments\<close> and
  \<open>version\<close>. \<open>c_to_arguments\<close> also reads \<open>self.types\<close> (line 127), an attribute the class
  assigns nowhere although its docstring still lists it: the field \<open>types\<close> is \<open>None\<close> while
  the attribute is absent.
\<close>

record message =
  name :: string
  arguments :: "Argument list"
  version :: "int option"
  types :: "interface option list option"

definition strip_underscores :: "string \<Rightarrow> string" where
  \<comment> \<open>\<open>s.strip('_')\<close>\<close>
  "strip_underscores s =
     rev (dropWhile (\<lambda>c. c = CHR ''_'') (rev (dropWhile (\<lambda>c. c = CHR ''_'') s)))"

definition Message_init :: "string \<Rightarrow> Argument list \<Rightarrow> int option \<Rightarrow> message" where
  "Message_init func_name args ver =
     \<lparr>name = strip_underscores func_name, arguments = args, version = ver, types = None\<rparr>"

fun marshaled_arguments_of :: "Argument list \<Rightarrow> Argument list" where
  "marshaled_arguments_of [] = []"
| "marshaled_arguments_of (arg # rest) =
     (if interface arg = None \<and> argument_type arg = ArgumentType_NewId
      then Argument_init ArgumentType_String # Argument_init ArgumentType_Uint # arg
             # marshaled_arguments_of rest
      else arg # marshaled_arguments_of rest)"

definition marshaled_arguments :: "message \<Rightarrow> Argument list" where
  \<comment> \<open>the property \<open>Message._marshaled_arguments\<close>, message.py 52-58\<close>
  "marshaled_arguments m = marshaled_arguments_of (arguments m)"

section \<open>Signatures\<close>

subsection \<open>The scanner's argument (scanner/argument.py)\<close>

text \<open>
  The attributes are the texts of the XML attributes, \<open>None\<close> where the attribute is
  absent. \<open>if self.allow_null\<close> and \<open>if self.interface\<close> are Python truth tests.
\<close>

record scanner_Argument =
  sc_name :: string
  sc_type :: string
  sc_summary :: "string option"
  sc_interface :: "string option"
  sc_allow_null :: "string option"
  sc_enum :: "string option"

fun truthy :: "string option \<Rightarrow> bool" where
  "truthy None = False"
| "truthy (Some s) = (s \<noteq> [])"

definition type_to_string :: "scanner_Argument \<Rightarrow> exn + string" where
  "type_to_string a =
     (if sc_type a = ''int'' then Inr ''i''
      else if sc_type a = ''uint'' then Inr ''u''
      else if sc_type a = ''fixed'' then Inr ''f''
      else if sc_type a = ''string'' then Inr ''s''
      else if sc_type a = ''object'' then Inr ''o''
      else if sc_type a = ''new_id'' then
        (if truthy (sc_interface a) then Inr ''n'' else Inr ''sun'')
      else if sc_type a = ''array'' then Inr ''a''
      else if sc_type a = ''fd'' then Inr ''h''
      else Inl (RuntimeError (Invalid_argument_type (sc_type a))))"

definition scanner_signature :: "scanner_Argument \<Rightarrow> exn + string" where
  \<comment> \<open>the property \<open>Argument.signature\<close>, scanner/argument.py 51-61\<close>
  "scanner_signature a =
     (if truthy (sc_allow_null a)
      then (case type_to_string a of Inl e \<Rightarrow> Inl e | Inr s \<Rightarrow> Inr (CHR ''?'' # s))
      else type_to_string a)"

subsection \<open>The message's signature (message.py 69-71)\<close>

definition type_signature :: "Argument \<Rightarrow> string" where
  \<comment> \<open>Modelled from the spec: the lookup of section 4.1 for \<open>protocol_core.Argument\<close>
      (the class is not under src/): i, u, f, s, o, a, h, and for a new id "n" when an
      interface is referenced, "sun" when none is.\<close>
  "type_signature a =
     (case argument_type a of
        ArgumentType_Int \<Rightarrow> ''i''
      | ArgumentType_Uint \<Rightarrow> ''u''
      | ArgumentType_Fixed \<Rightarrow> ''f''
      | ArgumentType_String \<Rightarrow> ''s''
      | ArgumentType_Object \<Rightarrow> ''o''
      | ArgumentType_NewId \<Rightarrow> (if interface a = None then ''sun'' else ''n'')
      | ArgumentType_Array \<Rightarrow> ''a''
      | ArgumentType_FileDescriptor \<Rightarrow> ''h'')"

definition signature :: "Argument \<Rightarrow> string" where
  \<comment> \<open>Modelled from the spec: the property \<open>signature\<close> of \<open>protocol_core.Argument\<close>:
      the signature characters, prefixed with '?' when the argument is nullable.\<close>
  "signature a = (if nullable a then CHR ''?'' # type_signature a else type_signature a)"

definition digit_char :: "nat \<Rightarrow> char" where
  "digit_char d = char_of (of_char CHR ''0'' + d)"

fun str_nat :: "nat \<Rightarrow> string" where
  "str_nat n = (if n < 10 then [digit_char n] else str_nat (n div 10) @ [digit_char (n mod 10)])"

declare str_nat.simps [simp del]

definition str_int :: "int \<Rightarrow> string" where
  \<comment> \<open>Python's \<open>str\<close> of an integer, as the f-string of message.py 71 formats it\<close>
  "str_int i = (if i < 0 then CHR ''-'' # str_nat (nat (- i)) else str_nat (nat i))"

fun join :: "string list \<Rightarrow> string" where
  \<comment> \<open>\<open>"".join(...)\<close>\<close>
  "join [] = []"
| "join (s # ss) = s @ join ss"

definition message_signature :: "message \<Rightarrow> string" where
  \<comment> \<open>the local \<open>signature\<close> of \<open>build_message_struct\<close> after line 71\<close>
  "message_signature m =
     (let sig = join (map signature (arguments m))
      in case version m of None \<Rightarrow> sig | Some v \<Rightarrow> str_int v @ sig)"

definition NUL :: char where
  "NUL = CHR 0x00"

definition new_chars :: "string \<Rightarrow> string" where
  \<comment> \<open>\<open>ffi.new('char[]', b)\<close>: the bytes and a terminating NUL\<close>
  "new_chars b = b @ [NUL]"

definition build_message_struct :: "message \<Rightarrow> string \<times> string \<times> nat list" where
  \<comment> \<open>the three fields it stores in the \<open>wl_message\<close> struct, and returns\<close>
  "build_message_struct m =
     (new_chars (name m),
      new_chars (message_signature m),
      map (\<lambda>argument. case interface argument of None \<Rightarrow> NULL | Some i \<Rightarrow> iface_ptr i)
        (marshaled_arguments m))"

section \<open>Wire cells\<close>

text \<open>
  A cell is one \<open>union wl_argument\<close>. The constructor says which member was stored last:
  \<open>i\<close>, \<open>u\<close>, \<open>f\<close> (a \<open>wl_fixed_t\<close>) and \<open>h\<close> are 32-bit members, \<open>s\<close> points to a char
  buffer, \<open>o\<close> to an object (by address), \<open>a\<close> to a \<open>struct wl_array\<close>. \<open>Zeroed\<close> is a
  cell as \<open>ffi.new\<close> hands it out, all bytes zero. For the pointers to buffers \<open>None\<close> is
  \<open>ffi.NULL\<close>; for \<open>o\<close> the address \<open>NULL\<close> is.
\<close>

record wl_array =
  wl_size :: nat
  wl_alloc :: nat
  wl_data :: "8 word list option"

datatype wl_argument =
    Zeroed
  | Cell_i "32 word"
  | Cell_u "32 word"
  | Cell_f "32 word"
  | Cell_h "32 word"
  | Cell_s "string option"
  | Cell_o nat
  | Cell_a "wl_array option"

fun all_zero :: "wl_argument \<Rightarrow> bool" where
  "all_zero Zeroed = True"
| "all_zero (Cell_i w) = (w = 0)"
| "all_zero (Cell_u w) = (w = 0)"
| "all_zero (Cell_f w) = (w = 0)"
| "all_zero (Cell_h w) = (w = 0)"
| "all_zero (Cell_s p) = (p = None)"
| "all_zero (Cell_o p) = (p = NULL)"
| "all_zero (Cell_a p) = (p = None)"

text \<open>
  Reading a member: the 32-bit members share their bytes, and a cell of zero bytes reads
  as 0 and as NULL through every member. Any other read of a member that was not stored
  reinterprets bytes the model does not keep: the result is \<open>None\<close>.
\<close>

fun scalar_member :: "wl_argument \<Rightarrow> 32 word option" where
  "scalar_member (Cell_i w) = Some w"
| "scalar_member (Cell_u w) = Some w"
| "scalar_member (Cell_f w) = Some w"
| "scalar_member (Cell_h w) = Some w"
| "scalar_member c = (if all_zero c then Some 0 else None)"

fun s_member :: "wl_argument \<Rightarrow> string option option" where
  "s_member (Cell_s p) = Some p"
| "s_member c = (if all_zero c then Some None else None)"

fun o_member :: "wl_argument \<Rightarrow> nat option" where
  "o_member (Cell_o p) = Some p"
| "o_member c = (if all_zero c then Some NULL else None)"

fun a_member :: "wl_argument \<Rightarrow> wl_array option option" where
  "a_member (Cell_a p) = Some p"
| "a_member c = (if all_zero c then Some None else None)"

text \<open>What \<open>arguments_to_c\<close> appends to \<open>refs\<close>, to be kept alive with the cells.\<close>

datatype keepalive =
    Ref_chars string
  | Ref_object nat

section \<open>The fixed-point functions of the C library\<close>

text \<open>
  \<open>lib.wl_fixed_from_int\<close>, \<open>lib.wl_fixed_from_double\<close> and \<open>lib.wl_fixed_to_double\<close> are
  functions of the wayland C library reached through cffi; they are not under src/.
\<close>

definition wl_fixed_from_int :: "int \<Rightarrow> 32 word" where
  \<comment> \<open>Modelled from the spec: "an integer (scaled by 256, exact)"; the product is a C int\<close>
  "wl_fixed_from_int i = word_of_int (i * 256)"

definition round_half_even :: "rat \<Rightarrow> int" where
  "round_half_even x =
     (let n = \<lfloor>x\<rfloor>; r = x - of_int n
      in if r < 1 / 2 then n else if 1 / 2 < r then n + 1 else if even n then n else n + 1)"

definition wl_fixed_from_double :: "rat \<Rightarrow> 32 word" where
  \<comment> \<open>Modelled from the spec: "converted to the 24.8 fixed representation": the nearest
      multiple of 1/256, kept in 32 bits\<close>
  "wl_fixed_from_double d = word_of_int (round_half_even (d * 256))"

definition wl_fixed_to_double :: "32 word \<Rightarrow> rat" where
  \<comment> \<open>Modelled from the spec: "the inverse of the 24.8 transform"\<close>
  "wl_fixed_to_double f = of_int (sint f) / 256"

section \<open>Encoding: \<open>Message.arguments_to_c\<close>\<close>

definition to_int32 :: "pyobj \<Rightarrow> exn + 32 word" where
  \<comment> \<open>cffi storing a Python object into a C \<open>int32_t\<close> (or passing it as a C \<open>int\<close>)\<close>
  "to_int32 arg =
     (case arg of
        PInt v \<Rightarrow> if - (2 ^ 31) \<le> v \<and> v < 2 ^ 31 then Inr (word_of_int v) else Inl OverflowError
      | _ \<Rightarrow> Inl TypeError)"

definition to_uint32 :: "pyobj \<Rightarrow> exn + 32 word" where
  \<comment> \<open>cffi storing a Python object into a C \<open>uint32_t\<close>\<close>
  "to_uint32 arg =
     (case arg of
        PInt v \<Rightarrow> if 0 \<le> v \<and> v < 2 ^ 32 then Inr (word_of_int v) else Inl OverflowError
      | _ \<Rightarrow> Inl TypeError)"

text \<open>
  One pass of the loop body after \<open>arg = next(arg_iter)\<close> (message.py 167-205): the cell
  the branch stores at \<open>args_ptr[i]\<close> and what it appends to \<open>refs\<close>.
  The branch for \<open>Array\<close> does not get that far. Its second statement is
  \<open>new_data = ffi.new('void []', len(arg))\<close> (line 201): \<open>len(arg)\<close> raises \<open>TypeError\<close> for
  a value without length, and for a value with one cffi refuses the type, an array whose
  items are \<open>void\<close> and so of no known size, with \<open>ValueError\<close>. (The lines after it
  append to \<open>refs\<close> and end without a store to \<open>args_ptr[i].a\<close>.) A \<open>NewId\<close> never
  reaches this point (the loop has stored NULL and gone on, lines 162-164); its case
  repeats that store.
\<close>

definition encode_argument :: "Argument \<Rightarrow> pyobj \<Rightarrow> exn + (wl_argument \<times> keepalive list)" where
  "encode_argument argument arg =
     (case argument_type argument of
        ArgumentType_Int \<Rightarrow>
          (case to_int32 arg of Inl e \<Rightarrow> Inl e | Inr w \<Rightarrow> Inr (Cell_i w, []))
      | ArgumentType_Uint \<Rightarrow>
          (case to_uint32 arg of Inl e \<Rightarrow> Inl e | Inr w \<Rightarrow> Inr (Cell_u w, []))
      | ArgumentType_Fixed \<Rightarrow>
          (case arg of
             PInt v \<Rightarrow>
               (case to_int32 arg of Inl e \<Rightarrow> Inl e
                | Inr w \<Rightarrow> Inr (Cell_f (wl_fixed_from_int v), []))
           | PFloat d \<Rightarrow> Inr (Cell_f (wl_fixed_from_double d), [])
           | _ \<Rightarrow> Inl TypeError)
      | ArgumentType_FileDescriptor \<Rightarrow>
          (case to_int32 arg of Inl e \<Rightarrow> Inl e | Inr w \<Rightarrow> Inr (Cell_h w, []))
      | ArgumentType_String \<Rightarrow>
          (case arg of
             PNone \<Rightarrow> if \<not> nullable argument then Inl Exception else Inr (Cell_s None, [])
           | PStr s \<Rightarrow> Inr (Cell_s (Some (new_chars s)), [Ref_chars (new_chars s)])
           | _ \<Rightarrow> Inl AttributeError)
      | ArgumentType_Object \<Rightarrow>
          (case arg of
             PNone \<Rightarrow> if \<not> nullable argument then Inl Exception else Inr (Cell_o NULL, [])
           | PProxy p \<Rightarrow>
               (case ptr p of
                  None \<Rightarrow> Inl TypeError
                | Some a \<Rightarrow> Inr (Cell_o a, [Ref_object a]))
           | _ \<Rightarrow> Inl AttributeError)
      | ArgumentType_Array \<Rightarrow>
          (case arg of
             PBytes b \<Rightarrow> Inl ValueError
           | PStr s \<Rightarrow> Inl ValueError
           | _ \<Rightarrow> Inl TypeError)
      | ArgumentType_NewId \<Rightarrow> Inr (Cell_o NULL, []))"

fun arguments_to_c_loop ::
  "wl_argument list \<Rightarrow> nat \<Rightarrow> Argument list \<Rightarrow> pyobj list \<Rightarrow> keepalive list
     \<Rightarrow> exn + (wl_argument list \<times> keepalive list)" where
  "arguments_to_c_loop args_ptr i [] arg_iter refs = Inr (args_ptr, refs)"
| "arguments_to_c_loop args_ptr i (argument # rest) arg_iter refs =
     (if argument_type argument = ArgumentType_NewId
      then arguments_to_c_loop (args_ptr[i := Cell_o NULL]) (i + 1) rest arg_iter refs
      else
        (case arg_iter of
           [] \<Rightarrow> Inl StopIteration
         | arg # arg_iter' \<Rightarrow>
             (case encode_argument argument arg of
                Inl e \<Rightarrow> Inl e
              | Inr (cell, new_refs) \<Rightarrow>
                  arguments_to_c_loop (args_ptr[i := cell]) (i + 1) rest arg_iter'
                    (refs @ new_refs))))"

definition arguments_to_c :: "message \<Rightarrow> pyobj list \<Rightarrow> exn + (wl_argument list \<times> keepalive list)" where
  \<comment> \<open>the cells \<open>args_ptr\<close> it returns, with the \<open>refs\<close> it files under them in
      \<open>weakkeydict\<close> (nothing is filed when \<open>refs\<close> is empty)\<close>
  "arguments_to_c m args =
     (let nargs = length (marshaled_arguments m);
          args_ptr = replicate nargs Zeroed
      in arguments_to_c_loop args_ptr 0 (marshaled_arguments m) args [])"

section \<open>Decoding: \<open>Message.c_to_arguments\<close>\<close>

text \<open>
  \<open>bytes.decode()\<close> accepts well-formed UTF-8 only: no overlong form, no surrogate,
  nothing above U+10FFFF. The bytes are given by their values.
\<close>

definition cont :: "nat \<Rightarrow> bool" where
  "cont b = (0x80 \<le> b \<and> b \<le> 0xBF)"

fun utf8 :: "nat list \<Rightarrow> bool" where
  "utf8 [] = True"
| "utf8 [a] = (a < 0x80)"
| "utf8 [a, b] = (if a < 0x80 then utf8 [b] else 0xC2 \<le> a \<and> a \<le> 0xDF \<and> cont b)"
| "utf8 [a, b, c] =
     (if a < 0x80 then utf8 [b, c]
      else if 0xC2 \<le> a \<and> a \<le> 0xDF then cont b \<and> utf8 [c]
      else if a = 0xE0 then 0xA0 \<le> b \<and> b \<le> 0xBF \<and> cont c
      else if a = 0xED then 0x80 \<le> b \<and> b \<le> 0x9F \<and> cont c
      else 0xE1 \<le> a \<and> a \<le> 0xEF \<and> cont b \<and> cont c)"
| "utf8 (a # b # c # d # rest) =
     (if a < 0x80 then utf8 (b # c # d # rest)
      else if 0xC2 \<le> a \<and> a \<le> 0xDF then cont b \<and> utf8 (c # d # rest)
      else if a = 0xE0 then 0xA0 \<le> b \<and> b \<le> 0xBF \<and> cont c \<and> utf8 (d # rest)
      else if a = 0xED then 0x80 \<le> b \<and> b \<le> 0x9F \<and> cont c \<and> utf8 (d # rest)
      else if 0xE1 \<le> a \<and> a \<le> 0xEF then cont b \<and> cont c \<and> utf8 (d # rest)
      else if a = 0xF0 then 0x90 \<le> b \<and> b \<le> 0xBF \<and> cont c \<and> cont d \<and> utf8 rest
      else if a = 0xF4 then 0x80 \<le> b \<and> b \<le> 0x8F \<and> cont c \<and> cont d \<and> utf8 rest
      else 0xF1 \<le> a \<and> a \<le> 0xF3 \<and> cont b \<and> cont c \<and> cont d \<and> utf8 rest)"

definition decode_str :: "string \<Rightarrow> exn + pyobj" where
  \<comment> \<open>\<open>b.decode()\<close>\<close>
  "decode_str b = (if utf8 (map of_char b) then Inr (PStr b) else Inl UnicodeDecodeError)"

definition ffi_string :: "string \<Rightarrow> string" where
  \<comment> \<open>\<open>ffi.string(p)\<close> for a \<open>char *\<close> that is not NULL: the bytes before the first NUL\<close>
  "ffi_string buf = takeWhile (\<lambda>c. c \<noteq> NUL) buf"

definition element_is_NULL :: "wl_argument list \<Rightarrow> nat \<Rightarrow> bool" where
  \<comment> \<open>\<open>arg_ptr == ffi.NULL\<close> of message.py 112, with \<open>arg_ptr = args_ptr[i]\<close>. Indexing an
      array of unions gives a cdata that refers to the element in place, and cffi's
      \<open>==\<close> on two cdata that are not primitive compares their addresses: the element's
      address against NULL. An element of an array has an address, so the test is false
      whatever the cell holds.\<close>
  "element_is_NULL args_ptr i = False"

definition decode_argument ::
  "message \<Rightarrow> wl_argument list \<Rightarrow> nat \<Rightarrow> Argument \<Rightarrow> exn + pyobj" where
  \<comment> \<open>the body of the loop of message.py 98-140, for \<open>i < len(args_ptr)\<close>\<close>
  "decode_argument m args_ptr i argument =
     (let arg_ptr = args_ptr ! i in
      case argument_type argument of
        ArgumentType_Int \<Rightarrow>
          (case scalar_member arg_ptr of None \<Rightarrow> Inl Reinterpreted
           | Some w \<Rightarrow> Inr (PInt (sint w)))
      | ArgumentType_Uint \<Rightarrow>
          (case scalar_member arg_ptr of None \<Rightarrow> Inl Reinterpreted
           | Some w \<Rightarrow> Inr (PInt (uint w)))
      | ArgumentType_Fixed \<Rightarrow>
          (case scalar_member arg_ptr of None \<Rightarrow> Inl Reinterpreted
           | Some w \<Rightarrow> Inr (PFloat (wl_fixed_to_double w)))
      | ArgumentType_FileDescriptor \<Rightarrow>
          (case scalar_member arg_ptr of None \<Rightarrow> Inl Reinterpreted
           | Some w \<Rightarrow> Inr (PInt (sint w)))
      | ArgumentType_String \<Rightarrow>
          (if element_is_NULL args_ptr i
           then (if \<not> nullable argument then Inl Exception else Inr PNone)
           else
             (case s_member arg_ptr of
                None \<Rightarrow> Inl Reinterpreted
              | Some None \<Rightarrow> Inl (RuntimeError String_on_NULL)
              | Some (Some buf) \<Rightarrow> decode_str (ffi_string buf)))
      | ArgumentType_Object \<Rightarrow>
          (case o_member arg_ptr of
             None \<Rightarrow> Inl Reinterpreted
           | Some p \<Rightarrow>
               if p = NULL
               then (if \<not> nullable argument
                     then Inl (RuntimeError (Got_null_object (name m)))
                     else Inr PNone)
               else
                 (case types m of
                    None \<Rightarrow> Inl AttributeError
                  | Some ts \<Rightarrow>
                      if length ts \<le> i then Inl IndexError
                      else
                        (case ts ! i of
                           None \<Rightarrow> Inl AttributeError
                         | Some iface \<Rightarrow>
                             (case registry (proxy_class iface) p of
                                None \<Rightarrow> Inl (RuntimeError (Unable_to_get_object p))
                              | Some obj \<Rightarrow> Inr (PProxy obj)))))
      | ArgumentType_NewId \<Rightarrow> Inl NotImplementedError
      | ArgumentType_Array \<Rightarrow>
          (case a_member arg_ptr of
             None \<Rightarrow> Inl Reinterpreted
           | Some None \<Rightarrow> Inl NULL_dereference
           | Some (Some array_ptr) \<Rightarrow>
               (case wl_data array_ptr of
                  None \<Rightarrow> if wl_size array_ptr = 0 then Inr (PBytes []) else Inl NULL_dereference
                | Some bytes \<Rightarrow> Inr (PBytes (take (wl_size array_ptr) bytes)))))"

text \<open>
  The loop goes over the declared arguments, not the marshaled ones, and reads cell \<open>i\<close>
  for argument \<open>i\<close>. The cells are a list: an index past its end raises \<open>IndexError\<close>, as
  a cffi array of known length does.
\<close>

fun c_to_arguments_loop ::
  "message \<Rightarrow> wl_argument list \<Rightarrow> nat \<Rightarrow> Argument list \<Rightarrow> pyobj list \<Rightarrow> exn + pyobj list" where
  "c_to_arguments_loop m args_ptr i [] args = Inr args"
| "c_to_arguments_loop m args_ptr i (argument # rest) args =
     (if length args_ptr \<le> i then Inl IndexError
      else
        (case decode_argument m args_ptr i argument of
           Inl e \<Rightarrow> Inl e
         | Inr v \<Rightarrow> c_to_arguments_loop m args_ptr (i + 1) rest (args @ [v])))"

definition c_to_arguments :: "message \<Rightarrow> wl_argument list \<Rightarrow> exn + pyobj list" where
  "c_to_arguments m args_ptr = c_to_arguments_loop m args_ptr 0 (arguments m) []"

section \<open>The object registry\<close>

definition register :: "nat \<Rightarrow> proxy \<Rightarrow> (nat \<rightharpoonup> proxy) \<Rightarrow> exn + (nat \<rightharpoonup> proxy)" where
  \<comment> \<open>Modelled from the spec: \<open>register(identity, proxy)\<close> of section 4.4 (no function of
      src/ writes the registry): "inserts identity -> proxy. Fails with DuplicateIdentity
      if the identity is already live."\<close>
  "register identity p reg =
     (case reg identity of
        Some q \<Rightarrow> Inl DuplicateIdentity
      | None \<Rightarrow> Inr (reg(identity \<mapsto> p)))"

definition resolve :: "nat \<Rightarrow> (nat \<rightharpoonup> proxy) \<Rightarrow> proxy option" where
  \<comment> \<open>Modelled from the spec: \<open>resolve(identity) -> Proxy | None\<close>, "lookup only, no side
      effect"; it is the \<open>registry.get\<close> of message.py 129.\<close>
  "resolve identity reg = reg identity"

definition unregister :: "nat \<Rightarrow> (nat \<rightharpoonup> proxy) \<Rightarrow> (nat \<rightharpoonup> proxy)" where
  \<comment> \<open>Modelled from the spec: \<open>unregister(identity)\<close>, "removes the mapping".\<close>
  "unregister identity reg = reg(identity := None)"

section \<open>The proxy (client/proxy.py)\<close>

text \<open>
  The calls into the C library are kept in a log, with the module's dictionary
  \<open>dispatcher_to_object\<close>. The class attribute \<open>dispatcher\<close> and the class attribute
  \<open>_interface\<close> (of which only \<open>requests\<close> is read) are arguments.
\<close>

datatype lib_call =
    Wl_proxy_add_dispatcher nat nat
  | Wl_proxy_marshal_array nat nat "wl_argument list"
  | Wl_proxy_marshal_array_constructor nat nat "wl_argument list" nat

record world =
  dispatcher_to_object :: "nat \<rightharpoonup> proxy"
  lib_calls :: "lib_call list"

definition Proxy_init ::
  "nat option \<Rightarrow> nat option \<Rightarrow> proxy option \<Rightarrow> world \<Rightarrow> exn + (proxy \<times> world)" where
  \<comment> \<open>\<open>Proxy.__init__(self, ptr, display=None)\<close>, proxy.py 34-56, for a class whose
      \<open>dispatcher\<close> attribute is \<open>cls_dispatcher\<close>; the dictionary holds the object itself,
      so with the \<open>_handle\<close> it gets two lines later\<close>
  "Proxy_init cls_dispatcher p disp w =
     (let self = Proxy p disp None None in
      case p of
        None \<Rightarrow> Inr (self, w)
      | Some a \<Rightarrow>
          if disp = None then Inl ValueError
          else
            (case cls_dispatcher of
               None \<Rightarrow> Inr (self, w)
             | Some d \<Rightarrow>
                 (let self' = Proxy p disp None (Some d)
                  in Inr (self',
                          w\<lparr>dispatcher_to_object := (dispatcher_to_object w)(d \<mapsto> self'),
                            lib_calls := lib_calls w @ [Wl_proxy_add_dispatcher a d]\<rparr>))))"

definition Proxy_destroy :: "proxy \<Rightarrow> proxy" where
  \<comment> \<open>\<open>Proxy._destroy\<close>, proxy.py 58-64; \<open>if self._ptr\<close> is false for \<open>None\<close> and for a NULL
      pointer\<close>
  "Proxy_destroy self =
     (case ptr self of
        None \<Rightarrow> self
      | Some a \<Rightarrow>
          if a \<noteq> NULL then Proxy None (display self) (user_data self) (handle self) else self)"

definition ensure_valid :: "proxy \<Rightarrow> (exn + 'a) \<Rightarrow> (exn + 'a)" where
  \<comment> \<open>Modelled from the spec: the decorator \<open>ensure_valid\<close> that proxy.py imports from
      \<open>pywayland.utils\<close> (the utils.py under src/ does not define it): "after destruction
      the Proxy no longer accepts marshal calls". The method runs only on a proxy whose
      pointer is still there.\<close>
  "ensure_valid self body = (if ptr self = None then Inl StaleObject else body)"

definition request_at :: "message list \<Rightarrow> nat \<Rightarrow> exn + message" where
  \<comment> \<open>\<open>self._interface.requests[opcode]\<close>\<close>
  "request_at requests opcode =
     (if opcode < length requests then Inr (requests ! opcode) else Inl IndexError)"

definition marshal_body ::
  "message list \<Rightarrow> proxy \<Rightarrow> nat \<Rightarrow> pyobj list \<Rightarrow> world \<Rightarrow> exn + world" where
  \<comment> \<open>proxy.py 70-74; \<open>ffi.cast\<close> of \<open>None\<close> to a pointer type raises \<open>TypeError\<close>\<close>
  "marshal_body requests self opcode args w =
     (case request_at requests opcode of
        Inl e \<Rightarrow> Inl e
      | Inr m \<Rightarrow>
          (case arguments_to_c m args of
             Inl e \<Rightarrow> Inl e
           | Inr (args_ptr, refs) \<Rightarrow>
               (case ptr self of
                  None \<Rightarrow> Inl TypeError
                | Some a \<Rightarrow>
                    Inr (w\<lparr>lib_calls := lib_calls w @ [Wl_proxy_marshal_array a opcode args_ptr]\<rparr>))))"

definition Proxy_marshal ::
  "message list \<Rightarrow> proxy \<Rightarrow> nat \<Rightarrow> pyobj list \<Rightarrow> world \<Rightarrow> exn + world" where
  \<comment> \<open>\<open>Proxy._marshal\<close>, proxy.py 66-74\<close>
  "Proxy_marshal requests self opcode args w =
     ensure_valid self (marshal_body requests self opcode args w)"

definition marshal_constructor_body ::
  "message list \<Rightarrow> proxy \<Rightarrow> nat \<Rightarrow> interface \<Rightarrow> pyobj list \<Rightarrow> nat \<Rightarrow> world
     \<Rightarrow> exn + (proxy \<times> world)" where
  \<comment> \<open>proxy.py 79-94. \<open>proxy_ptr\<close> is the pointer the C library returns. Line 84 builds a
      \<open>ValueError\<close> and does not raise it.\<close>
  "marshal_constructor_body requests self opcode iface args proxy_ptr w =
     (let disp = (case display self of Some d \<Rightarrow> d | None \<Rightarrow> self) in
      case request_at requests opcode of
        Inl e \<Rightarrow> Inl e
      | Inr m \<Rightarrow>
          (case arguments_to_c m args of
             Inl e \<Rightarrow> Inl e
           | Inr (args_ptr, refs) \<Rightarrow>
               (case ptr self of
                  None \<Rightarrow> Inl TypeError
                | Some a \<Rightarrow>
                    Proxy_init (dispatcher (proxy_class iface)) (Some proxy_ptr) (Some disp)
                      (w\<lparr>lib_calls := lib_calls w @
                           [Wl_proxy_marshal_array_constructor a opcode args_ptr (iface_ptr iface)]\<rparr>))))"

definition Proxy_marshal_constructor ::
  "message list \<Rightarrow> proxy \<Rightarrow> nat \<Rightarrow> interface \<Rightarrow> pyobj list \<Rightarrow> nat \<Rightarrow> world
     \<Rightarrow> exn + (proxy \<times> world)" where
  \<comment> \<open>\<open>Proxy._marshal_constructor\<close>, proxy.py 76-94\<close>
  "Proxy_marshal_constructor requests self opcode iface args proxy_ptr w =
     ensure_valid self (marshal_constructor_body requests self opcode iface args proxy_ptr w)"

section \<open>Encoding a request with an unbound new id\<close>

lemma marshaled_arguments_bind:
  assumes "arguments m = [u, n]" "argument_type u = ArgumentType_Uint"
    "argument_type n = ArgumentType_NewId" "interface n = None"
  shows "marshaled_arguments m =
    [u, Argument_init ArgumentType_String, Argument_init ArgumentType_Uint, n]"
  using assms by (simp add: marshaled_arguments_def)

text \<open>
  C1, as stated: the message \<open>bind\<close> with arguments [Uint, unbound NewId], encoded with the
  caller's list (7,), gives four cells. It does not: the marshaled arguments are
  [Uint, String, Uint, NewId], the loop takes a value from the caller's list for the
  String and for the second Uint as for any other argument, and with (7,) the second
  \<open>next(arg_iter)\<close> raises \<open>StopIteration\<close>.
\<close>

theorem bind_short_args_counterexample:
  "arguments_to_c
     (Message_init ''bind'' [Argument_init ArgumentType_Uint, Argument_init ArgumentType_NewId] None)
     [PInt 7] = Inl StopIteration"
  by (simp add: arguments_to_c_def marshaled_arguments_def Message_init_def Argument_init_def
      encode_argument_def to_uint32_def)

text \<open>
  C1, amended: encoded with the caller's list (name, interface name, interface version),
  the message gives exactly the four cells [Uint(name), String(interface name),
  Uint(interface version), Object(NULL)]. The String and the Uint cell hold the caller's
  second and third value; only the cell of the new id is filled without a value of the
  caller's. With the name alone the encoder raises \<open>StopIteration\<close>.
\<close>

theorem bind_encodes_caller_args:
  assumes "arguments m = [u, n]" "argument_type u = ArgumentType_Uint"
    "argument_type n = ArgumentType_NewId" "interface n = None"
    "0 \<le> nm" "nm < 2 ^ 32" "0 \<le> ver" "ver < 2 ^ 32"
  shows "arguments_to_c m [PInt nm, PStr iface, PInt ver] =
           Inr ([Cell_u (word_of_int nm), Cell_s (Some (new_chars iface)),
                 Cell_u (word_of_int ver), Cell_o NULL],
                [Ref_chars (new_chars iface)])
         \<and> arguments_to_c m [PInt nm] = Inl StopIteration"
  using assms(5-8)
  by (simp add: arguments_to_c_def marshaled_arguments_bind [OF assms(1-4)] assms(2,3)
      Argument_init_def encode_argument_def to_uint32_def)

theorem bind_encodes_caller_args_witness:
  "arguments_to_c
     (Message_init ''bind'' [Argument_init ArgumentType_Uint, Argument_init ArgumentType_NewId] None)
     [PInt 7, PStr ''wl_compositor'', PInt 4] =
   Inr ([Cell_u 7, Cell_s (Some (''wl_compositor'' @ [NUL])), Cell_u 4, Cell_o NULL],
        [Ref_chars (''wl_compositor'' @ [NUL])])"
  using bind_encodes_caller_args [of
      "Message_init ''bind'' [Argument_init ArgumentType_Uint, Argument_init ArgumentType_NewId] None"
      "Argument_init ArgumentType_Uint" "Argument_init ArgumentType_NewId" 7 4 "''wl_compositor''"]
  by (simp add: Message_init_def Argument_init_def new_chars_def)

section \<open>The registry\<close>

text \<open>
  C8: the registry holds at most one proxy for an identity. After \<open>register(i, a)\<close> has
  succeeded, \<open>register(i, b)\<close> fails with \<open>DuplicateIdentity\<close> and \<open>resolve(i)\<close> is still
  \<open>a\<close>; after \<open>unregister(i)\<close>, \<open>resolve(i)\<close> is \<open>None\<close>.
\<close>

theorem registry_unique:
  assumes "register i a reg = Inr reg'"
  shows "register i b reg' = Inl DuplicateIdentity
         \<and> resolve i reg' = Some a
         \<and> resolve i (unregister i reg') = None"
  using assms by (auto simp: register_def resolve_def unregister_def split: option.splits)

theorem registry_unique_witness:
  "register 5 (Proxy (Some 11) None None None) Map.empty
     = Inr (Map.empty(5 \<mapsto> Proxy (Some 11) None None None))
   \<and> register 5 (Proxy (Some 12) None None None)
       (Map.empty(5 \<mapsto> Proxy (Some 11) None None None)) = Inl DuplicateIdentity
   \<and> resolve 5 (unregister 5 (Map.empty(5 \<mapsto> Proxy (Some 11) None None None))) = None"
proof -
  have r: "register 5 (Proxy (Some 11) None None None) Map.empty
     = Inr (Map.empty(5 \<mapsto> Proxy (Some 11) None None None))"
    by (simp add: register_def)
  from registry_unique [OF r, of "Proxy (Some 12) None None None"] r show ?thesis
    by simp
qed

section \<open>The proxy\<close>

text \<open>
  C10: \<open>Proxy(ptr)\<close> with a pointer and no display raises \<open>ValueError\<close>. Without a display
  the constructor returns an object exactly when the pointer is \<open>None\<close>; it then returns
  early, before any dispatcher is attached, and \<open>user_data\<close> is \<open>None\<close>.
\<close>

theorem proxy_init_needs_display:
  "Proxy_init cls_dispatcher (Some a) None w = Inl ValueError
   \<and> (\<exists>self. Proxy_init cls_dispatcher None disp w = Inr (self, w)
         \<and> ptr self = None \<and> display self = disp \<and> user_data self = None
         \<and> handle self = None)
   \<and> ((\<exists>r. Proxy_init cls_dispatcher p None w = Inr r) = (p = None))"
  by (cases p) (simp_all add: Proxy_init_def)

theorem proxy_init_needs_display_witness:
  "Proxy_init (Some 3) (Some 40) None \<lparr>dispatcher_to_object = Map.empty, lib_calls = []\<rparr>
      = Inl ValueError
   \<and> Proxy_init (Some 3) None None \<lparr>dispatcher_to_object = Map.empty, lib_calls = []\<rparr>
      = Inr (Proxy None None None None, \<lparr>dispatcher_to_object = Map.empty, lib_calls = []\<rparr>)"
  using proxy_init_needs_display [of "Some 3" 40
      "\<lparr>dispatcher_to_object = Map.empty, lib_calls = []\<rparr>" None None]
  by (simp add: Proxy_init_def)

lemma marshal_body_no_pointer:
  "ptr self = None \<Longrightarrow> isl (marshal_body requests self opcode args w)"
  by (simp add: marshal_body_def split: sum.splits prod.splits)

lemma marshal_constructor_body_no_pointer:
  "ptr self = None \<Longrightarrow>
     isl (marshal_constructor_body requests self opcode iface args proxy_ptr w)"
  by (simp add: marshal_constructor_body_def Let_def split: sum.splits prod.splits)

text \<open>
  C9: once \<open>_destroy\<close> has cleared the pointer of a proxy (it clears every pointer that
  is not NULL), \<open>_marshal\<close> and \<open>_marshal_constructor\<close> fail, and no call reaches the C
  library. The guard \<open>ensure_valid\<close> refuses the call; the bodies would fail without it
  too, at the latest where \<open>ffi.cast\<close> gets \<open>None\<close>.
\<close>

theorem destroyed_proxy_rejects_marshal:
  assumes "ptr self \<noteq> Some NULL"
  shows "ptr (Proxy_destroy self) = None
         \<and> Proxy_marshal requests (Proxy_destroy self) opcode args w = Inl StaleObject
         \<and> Proxy_marshal_constructor requests (Proxy_destroy self) opcode iface args proxy_ptr w
             = Inl StaleObject
         \<and> isl (marshal_body requests (Proxy_destroy self) opcode args w)
         \<and> isl (marshal_constructor_body requests (Proxy_destroy self) opcode iface args
                  proxy_ptr w)"
proof -
  have cleared: "ptr (Proxy_destroy self) = None"
    using assms by (cases self) (auto simp: Proxy_destroy_def split: option.splits)
  show ?thesis
    using cleared marshal_body_no_pointer [OF cleared]
      marshal_constructor_body_no_pointer [OF cleared]
    by (simp add: Proxy_marshal_def Proxy_marshal_constructor_def ensure_valid_def)
qed

theorem destroyed_proxy_rejects_marshal_witness:
  "Proxy_marshal [Message_init ''destroy'' [] None]
     (Proxy_destroy (Proxy (Some 40) None None None)) 0 []
     \<lparr>dispatcher_to_object = Map.empty, lib_calls = []\<rparr> = Inl StaleObject
   \<and> Proxy_marshal [Message_init ''destroy'' [] None]
     (Proxy (Some 40) None None None) 0 []
     \<lparr>dispatcher_to_object = Map.empty, lib_calls = []\<rparr>
     = Inr \<lparr>dispatcher_to_object = Map.empty, lib_calls = [Wl_proxy_marshal_array 40 0 []]\<rparr>"
proof -
  have h: "ptr (Proxy (Some 40) None None None) \<noteq> Some NULL"
    by (simp add: NULL_def)
  from destroyed_proxy_rejects_marshal [OF h, of "[Message_init ''destroy'' [] None]" 0 "[]"
      "\<lparr>dispatcher_to_object = Map.empty, lib_calls = []\<rparr>"]
  show ?thesis
    by (simp add: Proxy_marshal_def ensure_valid_def marshal_body_def request_at_def
        arguments_to_c_def marshaled_arguments_def Message_init_def)
qed


section \<open>Decoding an event\<close>

lemma decode_argument_NewId:
  "argument_type a = ArgumentType_NewId \<Longrightarrow>
     decode_argument m args_ptr i a = Inl NotImplementedError"
  by (simp add: decode_argument_def)

lemma c_to_arguments_loop_NewId:
  "\<exists>a \<in> set rest. argument_type a = ArgumentType_NewId \<Longrightarrow>
     isl (c_to_arguments_loop m args_ptr i rest args)"
proof (induction rest arbitrary: i args)
  case Nil
  then show ?case by simp
next
  case (Cons a rest)
  show ?case
  proof (cases "argument_type a = ArgumentType_NewId")
    case True
    then show ?thesis by (simp add: decode_argument_NewId)
  next
    case False
    with Cons.prems have "\<exists>a \<in> set rest. argument_type a = ArgumentType_NewId" by auto
    then show ?thesis using Cons.IH by (simp split: sum.splits)
  qed
qed

lemma c_to_arguments_loop_length:
  "c_to_arguments_loop m args_ptr i rest args = Inr vs \<Longrightarrow>
     length vs = length args + length rest"
proof (induction rest arbitrary: i args)
  case Nil
  then show ?case by simp
next
  case (Cons a rest)
  then show ?case by (fastforce split: if_splits sum.splits)
qed

text \<open>
  C7: an event whose declared arguments contain a new id never decodes: whatever the
  cells are, \<open>c_to_arguments\<close> raises. The branch for \<open>NewId\<close> does not look at the
  argument's interface, so this holds for a bound and for an unbound new id alike. When
  the new id is the first argument and a cell is there, the exception is the
  \<open>NotImplementedError\<close> of line 135.
\<close>

theorem new_id_event_never_decodes:
  assumes "\<exists>a \<in> set (arguments m). argument_type a = ArgumentType_NewId"
  shows "(\<exists>e. c_to_arguments m args_ptr = Inl e)
         \<and> (argument_type (hd (arguments m)) = ArgumentType_NewId \<and> args_ptr \<noteq> []
              \<longrightarrow> c_to_arguments m args_ptr = Inl NotImplementedError)"
proof -
  have "isl (c_to_arguments m args_ptr)"
    unfolding c_to_arguments_def using assms by (rule c_to_arguments_loop_NewId)
  then have first: "\<exists>e. c_to_arguments m args_ptr = Inl e"
    by (cases "c_to_arguments m args_ptr") simp_all
  have second: "c_to_arguments m args_ptr = Inl NotImplementedError"
    if "argument_type (hd (arguments m)) = ArgumentType_NewId" "args_ptr \<noteq> []"
  proof -
    from assms obtain a rest where ar: "arguments m = a # rest"
      by (cases "arguments m") auto
    with that show ?thesis
      by (simp add: c_to_arguments_def decode_argument_NewId)
  qed
  from first second show ?thesis by blast
qed

theorem new_id_event_never_decodes_witness:
  "c_to_arguments
     (Message_init ''ev'' [\<lparr>argument_type = ArgumentType_NewId, nullable = False,
        interface = Some \<lparr>iface_name = ''wl_callback'', iface_version = 1, iface_ptr = 64,
          proxy_class = \<lparr>dispatcher = None, registry = Map.empty\<rparr>\<rparr>\<rparr>] None)
     [Cell_o 9] = Inl NotImplementedError
   \<and> c_to_arguments
     (Message_init ''ev'' [Argument_init ArgumentType_Int, Argument_init ArgumentType_NewId] None)
     [Cell_i 3, Cell_o 9] = Inl NotImplementedError"
proof -
  let ?bound = "Message_init ''ev'' [\<lparr>argument_type = ArgumentType_NewId, nullable = False,
        interface = Some \<lparr>iface_name = ''wl_callback'', iface_version = 1, iface_ptr = 64,
          proxy_class = \<lparr>dispatcher = None, registry = Map.empty\<rparr>\<rparr>\<rparr>] None"
  have h: "\<exists>a \<in> set (arguments ?bound). argument_type a = ArgumentType_NewId"
    by (simp add: Message_init_def)
  have "c_to_arguments ?bound [Cell_o 9] = Inl NotImplementedError"
    using new_id_event_never_decodes [OF h, of "[Cell_o 9]"]
    by (simp add: Message_init_def)
  moreover have "c_to_arguments
     (Message_init ''ev'' [Argument_init ArgumentType_Int, Argument_init ArgumentType_NewId] None)
     [Cell_i 3, Cell_o 9] = Inl NotImplementedError"
    by (simp add: c_to_arguments_def Message_init_def Argument_init_def decode_argument_def)
  ultimately show ?thesis by simp
qed


section \<open>Signatures and the marshaled layout\<close>

lemma join_concat: "join ss = concat ss"
  by (induction ss) simp_all

lemma length_marshaled_arguments_of:
  "length (marshaled_arguments_of as) =
     length as
     + 2 * length (filter (\<lambda>a. interface a = None \<and> argument_type a = ArgumentType_NewId) as)"
  by (induction as) simp_all

lemma arguments_to_c_loop_length:
  "arguments_to_c_loop args_ptr i rest arg_iter refs = Inr (cells, refs') \<Longrightarrow>
     length cells = length args_ptr"
proof (induction rest arbitrary: args_ptr i arg_iter refs)
  case Nil
  then show ?case by simp
next
  case (Cons a rest)
  then show ?case
    by (fastforce split: if_splits list.splits sum.splits prod.splits option.splits)
qed

text \<open>
  C2: the signature string that \<open>build_message_struct\<close> computes is the concatenation of
  the signatures of the declared arguments, each the argument's signature characters
  with \<open>?\<close> in front when the argument is nullable, and the whole with the decimal version
  in front when the message has one. The struct gets that string, NUL-terminated. The
  scanner's \<open>Argument.signature\<close> builds an argument's part in the same way from the XML
  attributes. For [Int, nullable Object] the signature is \<open>i?o\<close>.
\<close>

theorem message_signature_concat:
  "message_signature m =
     (case version m of None \<Rightarrow> [] | Some v \<Rightarrow> str_int v)
     @ concat (map (\<lambda>a. (if nullable a then ''?'' else []) @ type_signature a) (arguments m))
   \<and> fst (snd (build_message_struct m)) = message_signature m @ [NUL]
   \<and> (argument_type a \<noteq> ArgumentType_NewId \<longrightarrow> length (type_signature a) = 1)
   \<and> (type_to_string sa = Inr s \<longrightarrow>
        scanner_signature sa = Inr ((if truthy (sc_allow_null sa) then ''?'' else []) @ s))
   \<and> message_signature
        (Message_init f
          [Argument_init ArgumentType_Int,
           \<lparr>argument_type = ArgumentType_Object, nullable = True, interface = Some i\<rparr>] None)
       = ''i?o''"
proof -
  have sig: "signature = (\<lambda>a. (if nullable a then ''?'' else []) @ type_signature a)"
    by (rule ext) (simp add: signature_def)
  have "message_signature m =
     (case version m of None \<Rightarrow> [] | Some v \<Rightarrow> str_int v)
     @ concat (map (\<lambda>a. (if nullable a then ''?'' else []) @ type_signature a) (arguments m))"
    by (simp add: message_signature_def join_concat sig split: option.splits)
  moreover have "fst (snd (build_message_struct m)) = message_signature m @ [NUL]"
    by (simp add: build_message_struct_def new_chars_def)
  moreover have "argument_type a \<noteq> ArgumentType_NewId \<longrightarrow> length (type_signature a) = 1"
    by (cases "argument_type a") (simp_all add: type_signature_def)
  moreover have "type_to_string sa = Inr s \<longrightarrow>
        scanner_signature sa = Inr ((if truthy (sc_allow_null sa) then ''?'' else []) @ s)"
    by (simp add: scanner_signature_def)
  moreover have "message_signature
        (Message_init f
          [Argument_init ArgumentType_Int,
           \<lparr>argument_type = ArgumentType_Object, nullable = True, interface = Some i\<rparr>] None)
       = ''i?o''"
    by (simp add: message_signature_def Message_init_def Argument_init_def signature_def
        type_signature_def)
  ultimately show ?thesis by blast
qed

theorem message_signature_concat_witness:
  "message_signature
     (Message_init ''configure''
        [Argument_init ArgumentType_Uint,
         \<lparr>argument_type = ArgumentType_String, nullable = True, interface = None\<rparr>] (Some 3))
     = ''3u?s''
   \<and> scanner_signature \<lparr>sc_name = ''parent'', sc_type = ''object'', sc_summary = None,
        sc_interface = Some ''wl_surface'', sc_allow_null = Some ''true'', sc_enum = None\<rparr>
     = Inr ''?o''"
proof -
  have ts: "type_to_string \<lparr>sc_name = ''parent'', sc_type = ''object'', sc_summary = None,
        sc_interface = Some ''wl_surface'', sc_allow_null = Some ''true'', sc_enum = None\<rparr>
     = Inr ''o''"
    by (simp add: type_to_string_def)
  have three: "str_int 3 = ''3''"
    by code_simp
  from message_signature_concat [of
      "Message_init ''configure''
        [Argument_init ArgumentType_Uint,
         \<lparr>argument_type = ArgumentType_String, nullable = True, interface = None\<rparr>] (Some 3)"
      "Argument_init ArgumentType_Uint"
      "\<lparr>sc_name = ''parent'', sc_type = ''object'', sc_summary = None,
        sc_interface = Some ''wl_surface'', sc_allow_null = Some ''true'', sc_enum = None\<rparr>"
      "''o''"]
    ts three
  show ?thesis
    by (simp add: Message_init_def Argument_init_def type_signature_def)
qed

text \<open>
  C3: a new id without interface has the signature characters \<open>sun\<close> and takes three
  cells in the marshaled layout, a String, a Uint and the new id itself; a new id with an
  interface has the character \<open>n\<close> and takes one cell. The scanner gives the same
  characters. The expansion is computed from the declared arguments each time the
  layout is needed: the layout of any message has two cells more than declared arguments
  for each unbound new id, \<open>arguments_to_c\<close> returns one cell per marshaled argument, and
  \<open>c_to_arguments\<close> one value per declared argument.
\<close>

theorem unbound_new_id_expands:
  assumes "argument_type a = ArgumentType_NewId"
  shows "(interface a = None \<longrightarrow>
            type_signature a = ''sun''
            \<and> marshaled_arguments_of [a] =
                [Argument_init ArgumentType_String, Argument_init ArgumentType_Uint, a])
         \<and> (interface a \<noteq> None \<longrightarrow>
            type_signature a = ''n'' \<and> marshaled_arguments_of [a] = [a])
         \<and> (sc_type sa = ''new_id'' \<longrightarrow>
            type_to_string sa = Inr (if truthy (sc_interface sa) then ''n'' else ''sun''))
         \<and> length (marshaled_arguments m) =
             length (arguments m)
             + 2 * length (filter (\<lambda>a. interface a = None \<and> argument_type a = ArgumentType_NewId)
                             (arguments m))
         \<and> (arguments_to_c m args = Inr (cells, refs) \<longrightarrow>
              length cells = length (marshaled_arguments m))
         \<and> (c_to_arguments m cells = Inr vs \<longrightarrow> length vs = length (arguments m))"
proof -
  have "arguments_to_c m args = Inr (cells, refs) \<longrightarrow>
          length cells = length (marshaled_arguments m)"
    by (auto simp: arguments_to_c_def Let_def dest: arguments_to_c_loop_length)
  moreover have "c_to_arguments m cells = Inr vs \<longrightarrow> length vs = length (arguments m)"
    by (auto simp: c_to_arguments_def dest: c_to_arguments_loop_length)
  moreover have "sc_type sa = ''new_id'' \<longrightarrow>
            type_to_string sa = Inr (if truthy (sc_interface sa) then ''n'' else ''sun'')"
    by (simp add: type_to_string_def)
  ultimately show ?thesis
    using assms
    by (simp add: type_signature_def marshaled_arguments_def length_marshaled_arguments_of)
qed

theorem unbound_new_id_expands_witness:
  "marshaled_arguments (Message_init ''bind''
      [Argument_init ArgumentType_Uint, Argument_init ArgumentType_NewId] None)
     = [Argument_init ArgumentType_Uint, Argument_init ArgumentType_String,
        Argument_init ArgumentType_Uint, Argument_init ArgumentType_NewId]
   \<and> type_signature (Argument_init ArgumentType_NewId) = ''sun''
   \<and> arguments (Message_init ''bind''
      [Argument_init ArgumentType_Uint, Argument_init ArgumentType_NewId] None)
     = [Argument_init ArgumentType_Uint, Argument_init ArgumentType_NewId]"
proof -
  have h: "argument_type (Argument_init ArgumentType_NewId) = ArgumentType_NewId"
    by (simp add: Argument_init_def)
  have i: "interface (Argument_init ArgumentType_NewId) = None"
    by (simp add: Argument_init_def)
  from unbound_new_id_expands [OF h] i
  have "type_signature (Argument_init ArgumentType_NewId) = ''sun''"
    and "marshaled_arguments_of [Argument_init ArgumentType_NewId] =
           [Argument_init ArgumentType_String, Argument_init ArgumentType_Uint,
            Argument_init ArgumentType_NewId]"
    by blast+
  then show ?thesis
    by (simp add: marshaled_arguments_def Message_init_def Argument_init_def)
qed


section \<open>Encoding and decoding again\<close>

text \<open>
  For one declared argument that is not a new id, \<open>arguments_to_c\<close> stores what
  \<open>encode_argument\<close> gives into the one cell, and \<open>c_to_arguments\<close> reads that cell.
\<close>

lemma arguments_to_c_single:
  assumes "arguments m = [a]" "argument_type a \<noteq> ArgumentType_NewId"
  shows "arguments_to_c m [v] =
     (case encode_argument a v of
        Inl e \<Rightarrow> Inl e
      | Inr (cell, refs) \<Rightarrow> Inr ([cell], refs))"
  using assms
  by (simp add: arguments_to_c_def marshaled_arguments_def split: sum.splits prod.splits)

lemma c_to_arguments_single:
  assumes "arguments m = [a]"
  shows "c_to_arguments m [cell] =
     (case decode_argument m [cell] 0 a of Inl e \<Rightarrow> Inl e | Inr v \<Rightarrow> Inr [v])"
  using assms by (simp add: c_to_arguments_def split: sum.splits)

lemma sint_int32: "- (2 ^ 31) \<le> v \<Longrightarrow> v < 2 ^ 31 \<Longrightarrow> sint (word_of_int v :: 32 word) = v"
  by (simp add: sint_sbintrunc' signed_take_bit_int_eq_self)

lemma uint_uint32: "0 \<le> v \<Longrightarrow> v < 2 ^ 32 \<Longrightarrow> uint (word_of_int v :: 32 word) = v"
  by (simp add: uint_word_of_int take_bit_int_eq_self)

lemma round_trip_Int:
  assumes "arguments m = [a]" "argument_type a = ArgumentType_Int"
    "- (2 ^ 31) \<le> v" "v < 2 ^ 31"
  shows "\<exists>cells refs. arguments_to_c m [PInt v] = Inr (cells, refs)
           \<and> c_to_arguments m cells = Inr [PInt v]"
  using assms
  by (simp add: arguments_to_c_single c_to_arguments_single encode_argument_def
      decode_argument_def to_int32_def sint_int32)

lemma round_trip_Uint:
  assumes "arguments m = [a]" "argument_type a = ArgumentType_Uint" "0 \<le> v" "v < 2 ^ 32"
  shows "\<exists>cells refs. arguments_to_c m [PInt v] = Inr (cells, refs)
           \<and> c_to_arguments m cells = Inr [PInt v]"
  using assms
  by (simp add: arguments_to_c_single c_to_arguments_single encode_argument_def
      decode_argument_def to_uint32_def uint_uint32)

lemma round_trip_FileDescriptor:
  assumes "arguments m = [a]" "argument_type a = ArgumentType_FileDescriptor"
    "- (2 ^ 31) \<le> v" "v < 2 ^ 31"
  shows "\<exists>cells refs. arguments_to_c m [PInt v] = Inr (cells, refs)
           \<and> c_to_arguments m cells = Inr [PInt v]"
  using assms
  by (simp add: arguments_to_c_single c_to_arguments_single encode_argument_def
      decode_argument_def to_int32_def sint_int32)

lemma ffi_string_new_chars: "NUL \<notin> set s \<Longrightarrow> ffi_string (new_chars s) = s"
  by (induction s) (auto simp: ffi_string_def new_chars_def)

lemma round_trip_String:
  assumes "arguments m = [a]" "argument_type a = ArgumentType_String"
    "NUL \<notin> set s" "utf8 (map of_char s)"
  shows "\<exists>cells refs. arguments_to_c m [PStr s] = Inr (cells, refs)
           \<and> c_to_arguments m cells = Inr [PStr s]"
  using assms
  by (simp add: arguments_to_c_single c_to_arguments_single encode_argument_def
      decode_argument_def element_is_NULL_def ffi_string_new_chars decode_str_def)

lemma round_trip_Fixed_exact:
  assumes "arguments m = [a]" "argument_type a = ArgumentType_Fixed"
    "- (2 ^ 31) \<le> k" "k < 2 ^ 31"
  shows "\<exists>cells refs. arguments_to_c m [PFloat (of_int k / 256)] = Inr (cells, refs)
           \<and> c_to_arguments m cells = Inr [PFloat (of_int k / 256)]"
proof -
  have "round_half_even (of_int k / 256 * 256) = k"
    by (simp add: round_half_even_def Let_def)
  with assms show ?thesis
    by (simp add: arguments_to_c_single c_to_arguments_single encode_argument_def
        decode_argument_def wl_fixed_from_double_def wl_fixed_to_double_def sint_int32)
qed

lemma encode_Array_raises:
  "argument_type a = ArgumentType_Array \<Longrightarrow> isl (encode_argument a v)"
  by (cases v) (simp_all add: encode_argument_def)

text \<open>
  C4: for every argument type but \<open>NewId\<close>, decoding the cells that encoding a value
  gave returns the value. This fails for an array: no byte string is ever encoded. The
  branch for \<open>Array\<close> (message.py 198-205) asks cffi for \<open>ffi.new('void []', len(arg))\<close>,
  which cffi refuses with \<open>ValueError\<close>, so \<open>arguments_to_c\<close> raises and there are no
  cells to decode. The decoder is not at fault: from a cell that points to a
  \<open>wl_array\<close> holding the bytes it returns them.
\<close>

theorem array_round_trip_fails:
  "arguments_to_c (Message_init ''ev'' [Argument_init ArgumentType_Array] None) [PBytes [1, 2]]
     = Inl ValueError
   \<and> c_to_arguments (Message_init ''ev'' [Argument_init ArgumentType_Array] None)
       [Cell_a (Some \<lparr>wl_size = 2, wl_alloc = 2, wl_data = Some [1, 2]\<rparr>)]
     = Inr [PBytes [1, 2]]"
  by (simp add: arguments_to_c_single c_to_arguments_single Message_init_def Argument_init_def
      encode_argument_def decode_argument_def)

lemma encode_None:
  assumes "arguments m = [a]"
    "argument_type a = ArgumentType_String \<or> argument_type a = ArgumentType_Object"
  shows "(arguments_to_c m [PNone] = Inl Exception) = (\<not> nullable a)"
    and "nullable a \<Longrightarrow> argument_type a = ArgumentType_String \<Longrightarrow>
           arguments_to_c m [PNone] = Inr ([Cell_s None], [])"
    and "nullable a \<Longrightarrow> argument_type a = ArgumentType_Object \<Longrightarrow>
           arguments_to_c m [PNone] = Inr ([Cell_o NULL], [])"
  using assms
  by (auto simp: arguments_to_c_single encode_argument_def)

lemma decode_NULL_Object:
  assumes "arguments m = [a]" "argument_type a = ArgumentType_Object"
  shows "c_to_arguments m [Cell_o NULL] =
           (if nullable a then Inr [PNone] else Inl (RuntimeError (Got_null_object (name m))))"
  using assms by (simp add: c_to_arguments_single decode_argument_def)

lemma decode_NULL_String:
  assumes "arguments m = [a]" "argument_type a = ArgumentType_String"
  shows "c_to_arguments m [Cell_s None] = Inl (RuntimeError String_on_NULL)"
  using assms by (simp add: c_to_arguments_single decode_argument_def element_is_NULL_def)

text \<open>
  C5: \<open>None\<close> for a String or Object argument is refused exactly when the argument is
  not nullable, and otherwise encodes to NULL and decodes to \<open>None\<close> again. This fails for
  a nullable string. Encoding \<open>None\<close> gives the NULL cell, but the decoder tests \<open>arg_ptr == ffi.NULL\<close> (line 112) where the branch for
  objects tests \<open>arg_ptr.o == ffi.NULL\<close> (line 119): it compares the cell's place, not the
  pointer in it, goes on to \<open>ffi.string\<close> with the NULL pointer, and that raises.
\<close>

theorem nullable_string_None_not_decoded:
  "arguments_to_c
     (Message_init ''ev''
        [\<lparr>argument_type = ArgumentType_String, nullable = True, interface = None\<rparr>] None)
     [PNone] = Inr ([Cell_s None], [])
   \<and> c_to_arguments
     (Message_init ''ev''
        [\<lparr>argument_type = ArgumentType_String, nullable = True, interface = None\<rparr>] None)
     [Cell_s None] = Inl (RuntimeError String_on_NULL)"
  by (simp add: arguments_to_c_single c_to_arguments_single Message_init_def
      encode_argument_def decode_argument_def element_is_NULL_def)

lemma decode_Object_without_types:
  assumes "arguments m = [a]" "argument_type a = ArgumentType_Object" "types m = None"
    "p \<noteq> NULL"
  shows "c_to_arguments m [Cell_o p] = Inl AttributeError"
  using assms by (simp add: c_to_arguments_single decode_argument_def)

lemma decode_Object_with_types:
  assumes "arguments m = [a]" "argument_type a = ArgumentType_Object"
    "types m = Some [Some iface]" "p \<noteq> NULL"
  shows "c_to_arguments m [Cell_o p] =
           (case registry (proxy_class iface) p of
              None \<Rightarrow> Inl (RuntimeError (Unable_to_get_object p))
            | Some obj \<Rightarrow> Inr [PProxy obj])"
  using assms by (simp add: c_to_arguments_single decode_argument_def split: option.splits)

text \<open>
  C6: an Object argument of an event decodes to the proxy registered under its pointer,
  to an error when none is registered or when the pointer is NULL and the argument not
  nullable, and to \<open>None\<close> for a NULL nullable one. This fails for an object that is
  registered. For a pointer that is not NULL the decoder
  reads \<open>self.types[i]\<close> (line 127) before it asks the registry, and a message as
  \<open>Message.__init__\<close> builds it has no attribute \<open>types\<close>: the proxy registered under the
  pointer is never returned.
\<close>

theorem registered_object_not_decoded:
  "c_to_arguments
     (Message_init ''enter''
        [\<lparr>argument_type = ArgumentType_Object, nullable = False,
          interface = Some \<lparr>iface_name = ''wl_surface'', iface_version = 4, iface_ptr = 64,
            proxy_class = \<lparr>dispatcher = None,
              registry = Map.empty(9 \<mapsto> Proxy (Some 9) None None None)\<rparr>\<rparr>\<rparr>] None)
     [Cell_o 9] = Inl AttributeError"
  by (simp add: c_to_arguments_single Message_init_def decode_argument_def NULL_def)


text \<open>
  What does come back: for a message with one argument, an integer in the range of an
  Int, Uint or FileDescriptor argument, a string without NUL for a String argument, and
  a multiple of 1/256 in the 32-bit range for a Fixed argument are decoded from their
  cells as they were encoded.
\<close>

theorem round_trip_where_cells_are_stored:
  assumes "arguments m = [a]"
  shows "(argument_type a = ArgumentType_Int \<and> - (2 ^ 31) \<le> v \<and> v < 2 ^ 31 \<longrightarrow>
            (\<exists>cells refs. arguments_to_c m [PInt v] = Inr (cells, refs)
               \<and> c_to_arguments m cells = Inr [PInt v]))
       \<and> (argument_type a = ArgumentType_Uint \<and> 0 \<le> v \<and> v < 2 ^ 32 \<longrightarrow>
            (\<exists>cells refs. arguments_to_c m [PInt v] = Inr (cells, refs)
               \<and> c_to_arguments m cells = Inr [PInt v]))
       \<and> (argument_type a = ArgumentType_FileDescriptor \<and> - (2 ^ 31) \<le> v \<and> v < 2 ^ 31 \<longrightarrow>
            (\<exists>cells refs. arguments_to_c m [PInt v] = Inr (cells, refs)
               \<and> c_to_arguments m cells = Inr [PInt v]))
       \<and> (argument_type a = ArgumentType_String \<and> NUL \<notin> set s \<and> utf8 (map of_char s) \<longrightarrow>
            (\<exists>cells refs. arguments_to_c m [PStr s] = Inr (cells, refs)
               \<and> c_to_arguments m cells = Inr [PStr s]))
       \<and> (argument_type a = ArgumentType_Fixed \<and> - (2 ^ 31) \<le> v \<and> v < 2 ^ 31 \<longrightarrow>
            (\<exists>cells refs. arguments_to_c m [PFloat (of_int v / 256)] = Inr (cells, refs)
               \<and> c_to_arguments m cells = Inr [PFloat (of_int v / 256)]))"
  using round_trip_Int [OF assms] round_trip_Uint [OF assms]
    round_trip_FileDescriptor [OF assms] round_trip_String [OF assms]
    round_trip_Fixed_exact [OF assms]
  by blast

theorem round_trip_where_cells_are_stored_witness:
  "arguments_to_c (Message_init ''ev'' [Argument_init ArgumentType_Fixed] None) [PFloat (3 / 2)]
     = Inr ([Cell_f 384], [])
   \<and> c_to_arguments (Message_init ''ev'' [Argument_init ArgumentType_Fixed] None) [Cell_f 384]
     = Inr [PFloat (3 / 2)]"
proof -
  let ?m = "Message_init ''ev'' [Argument_init ArgumentType_Fixed] None"
  have a: "arguments ?m = [Argument_init ArgumentType_Fixed]"
    by (simp add: Message_init_def)
  have enc: "arguments_to_c ?m [PFloat (3 / 2)] = Inr ([Cell_f 384], [])"
    by code_simp
  have "(384::rat) / 256 = 3 / 2" by simp
  with round_trip_where_cells_are_stored [OF a, of 384] enc show ?thesis
    by (simp add: Argument_init_def)
qed


end
